theory Spec2Isabelle
  imports Complex_Main
begin

section \<open>Evidential reasoning engine of \<open>app.py\<close>\<close>

text \<open>
  The program computes posterior probabilities of guilt from numeric evidence with
  three methods: sequential Bayes updating (point and interval form, with a Monte Carlo
  variant), a star-shaped Bayesian network and Dempster-Shafer combination.

  The numbers of the program are IEEE doubles. Most of the development idealises them
  as \<^typ>\<open>real\<close> and is about the arithmetic the code writes down. Where a property
  depends on rounding (an exact equality between two differently computed results), the
  update step and the Dempster-Shafer combination are modelled a second time, with every
  operation rounded to the nearest double (\<open>bayes_update_double\<close>,
  \<open>dempster_shafer_demo_double\<close>). Python's \<open>/\<close> raises \<open>ZeroDivisionError\<close> on a zero
  divisor and \<open>xs[-1]\<close> raises \<open>IndexError\<close> on an empty list; both are branches of the
  model, so that every guard of the source has something to guard against.
\<close>

subsection \<open>Errors and primitive operations\<close>

datatype error =
    ZeroDivisionError
  | IndexError
  | Intervall_lage_maste_vara_aktiverat
  | Summan_kan_ej_overstiga_1
  | Total_konflikt

definition py_div :: "real \<Rightarrow> real \<Rightarrow> error + real" where
  "py_div a b = (if b = 0 then Inl ZeroDivisionError else Inr (a / b))"

definition py_last :: "'a list \<Rightarrow> error + 'a" where
  \<comment> \<open>\<open>xs[-1]\<close>\<close>
  "py_last xs = (if xs = [] then Inl IndexError else Inr (last xs))"

text \<open>
  The update step. The source writes these three lines inline at every place that
  updates a posterior (lines 859-861, 867-869, 873-875, 887-889 of
  \<open>do_exact_bayes_calculation\<close>; lines 577-579, 583-585, 589-591, 628-630, 795-797 and
  804-806 of \<open>enkel_bayes\<close>), always in this shape:
  \<^verbatim>\<open>
  numerator = pba * old_posterior
  denominator = numerator + pbna*(1 - old_posterior)
  new_posterior = numerator/denominator if denominator != 0 else 0
  \<close>
  \<open>bayes_update\<close> is this step in exact arithmetic; \<open>bayes_update_double\<close> below is the
  same step with every operation rounded to double.
\<close>

definition bayes_update :: "real \<Rightarrow> real \<Rightarrow> real \<Rightarrow> error + real" where
  "bayes_update pba pbna old_posterior =
     (let numerator = pba * old_posterior;
          denominator = numerator + pbna * (1 - old_posterior)
      in if denominator \<noteq> 0 then py_div numerator denominator else Inr 0)"

subsection \<open>Point form of \<open>do_exact_bayes_calculation\<close>\<close>

text \<open>
  The labels of the \<open>Kommentar\<close> column. The first eight are those of
  \<open>do_exact_bayes_calculation\<close>, in the order of its \<open>if\<close>/\<open>elif\<close> chain:
  "Utom rimligt tvivel (>95%)", "Talar starkt f\<open>\<dots>\<close>r skuld (>80%)",
  "Tillr\<open>\<dots>\<close>ckliga sk\<open>\<dots>\<close>l f\<open>\<dots>\<close>r \<open>\<dots>\<close>tal (>60%)", "Bevis\<open>\<dots>\<close>vervikt(>50%)",
  "Sannolika sk\<open>\<dots>\<close>l att misst\<open>\<dots>\<close>nka (>40%)", "Tveksamt (>30%)", "Osannolikt (>20%)",
  "Talar f\<open>\<dots>\<close>r oskuld (<20%)". The last four are those of the counter-evidence rows:
  "Bortom rimligt tvivel (>95%)", "Starkt f\<open>\<dots>\<close>r skuld (>80%)",
  "Delvis f\<open>\<dots>\<close>r skuld (>50%)", "Under 50%".
\<close>

datatype kommentar =
    Utom_rimligt_tvivel_95
  | Talar_starkt_for_skuld_80
  | Tillrackliga_skal_for_atal_60
  | Bevisovervikt_50
  | Sannolika_skal_att_misstanka_40
  | Tveksamt_30
  | Osannolikt_20
  | Talar_for_oskuld_under_20
  | Bortom_rimligt_tvivel_95
  | Starkt_for_skuld_80
  | Delvis_for_skuld_50
  | Under_50

definition bevis_kommentar :: "real \<Rightarrow> kommentar" where
  "bevis_kommentar new_post_percent =
     (if new_post_percent \<ge> 95 then Utom_rimligt_tvivel_95
      else if new_post_percent \<ge> 80 then Talar_starkt_for_skuld_80
      else if new_post_percent \<ge> 60 then Tillrackliga_skal_for_atal_60
      else if new_post_percent \<ge> 50 then Bevisovervikt_50
      else if new_post_percent \<ge> 40 then Sannolika_skal_att_misstanka_40
      else if new_post_percent \<ge> 30 then Tveksamt_30
      else if new_post_percent \<ge> 20 then Osannolikt_20
      else Talar_for_oskuld_under_20)"

definition motbevis_kommentar :: "real \<Rightarrow> kommentar" where
  "motbevis_kommentar new_p_pct =
     (if new_p_pct \<ge> 95 then Bortom_rimligt_tvivel_95
      else if new_p_pct \<ge> 80 then Starkt_for_skuld_80
      else if new_p_pct \<ge> 50 then Delvis_for_skuld_50
      else Under_50)"

text \<open>
  A row of the result table. The source stores the numbers as strings made by
  \<open>format_auto_decimals\<close>; the model keeps the numbers that are formatted.
\<close>

datatype bevis_nr = Bevis nat | Motbevis nat

record row =
  row_nr :: bevis_nr
  row_pba :: real
  row_pbna :: real
  gammal_post :: real
  ny_post :: real
  forandring :: real
  row_kommentar :: kommentar

fun point_loop ::
  "(real \<times> real) list \<Rightarrow> nat \<Rightarrow> real \<Rightarrow> real list \<Rightarrow> row list \<Rightarrow> error + (real list \<times> row list)"
where
  "point_loop [] i current_posterior posterior_list row_list = Inr (posterior_list, row_list)"
| "point_loop ((pba, pbna) # bs) i current_posterior posterior_list row_list =
     (let old_posterior = current_posterior in
      case bayes_update pba pbna old_posterior of
        Inl e \<Rightarrow> Inl e
      | Inr new_posterior \<Rightarrow>
          (let delta = (new_posterior - old_posterior) * 100;
               new_post_percent = new_posterior * 100
           in point_loop bs (i + 1) new_posterior (posterior_list @ [new_posterior])
                (row_list @
                 [\<lparr>row_nr = Bevis i, row_pba = pba * 100, row_pbna = pbna * 100,
                   gammal_post = old_posterior * 100, ny_post = new_post_percent,
                   forandring = delta,
                   row_kommentar = bevis_kommentar new_post_percent\<rparr>])))"

subsection \<open>Interval form of \<open>do_exact_bayes_calculation\<close>\<close>

record interval_state =
  min_post_list :: "real list"
  median_post_list :: "real list"
  max_post_list :: "real list"
  current_min :: real
  current_median :: real
  current_max :: real

definition interval_step ::
  "real \<times> real \<times> real \<times> real \<Rightarrow> interval_state \<Rightarrow> error + interval_state"
where
  "interval_step b s =
     (case b of (mina, maxa, minna, maxna) \<Rightarrow>
     (case bayes_update mina minna (current_min s) of
        Inl e \<Rightarrow> Inl e
      | Inr new_min \<Rightarrow>
          (let pba_med = (mina + maxa) / 2;
               pbna_med = (minna + maxna) / 2
           in case bayes_update pba_med pbna_med (current_median s) of
                Inl e \<Rightarrow> Inl e
              | Inr new_med \<Rightarrow>
                  (case bayes_update maxa maxna (current_max s) of
                     Inl e \<Rightarrow> Inl e
                   | Inr new_max \<Rightarrow>
                       Inr (s\<lparr>min_post_list := min_post_list s @ [new_min],
                              current_min := new_min,
                              median_post_list := median_post_list s @ [new_med],
                              current_median := new_med,
                              current_max := new_max\<rparr>)))))"

fun interval_loop ::
  "(real \<times> real \<times> real \<times> real) list \<Rightarrow> interval_state \<Rightarrow> error + interval_state"
where
  "interval_loop [] s = Inr s"
| "interval_loop (b # bs) s =
     (case interval_step b s of Inl e \<Rightarrow> Inl e | Inr s' \<Rightarrow> interval_loop bs s')"

text \<open>
  \<open>bevis_data\<close> holds quadruples exactly when \<open>use_intervals\<close> is set (lines 419-485 of
  \<open>enkel_bayes\<close>), so the flag is the constructor of the data.
\<close>

datatype bevis_data =
    Intervall_bevis "(real \<times> real \<times> real \<times> real) list"
  | Punkt_bevis "(real \<times> real) list"

datatype bayes_result =
    Intervall_resultat "real list" "real list" "real list"
  | Punkt_resultat "real list" "row list"

definition do_exact_bayes_calculation :: "real \<Rightarrow> bevis_data \<Rightarrow> error + bayes_result" where
  "do_exact_bayes_calculation prior bevis =
     (case bevis of
        Intervall_bevis bs \<Rightarrow>
          (case interval_loop bs
                  \<lparr>min_post_list = [prior], median_post_list = [prior],
                   max_post_list = [prior], current_min = prior,
                   current_median = prior, current_max = prior\<rparr> of
             Inl e \<Rightarrow> Inl e
           | Inr s \<Rightarrow>
               Inr (Intervall_resultat (min_post_list s) (median_post_list s) (max_post_list s)))
      | Punkt_bevis bs \<Rightarrow>
          (case point_loop bs 1 prior [prior] [] of
             Inl e \<Rightarrow> Inl e
           | Inr (posterior_list, row_list) \<Rightarrow> Inr (Punkt_resultat posterior_list row_list)))"

subsection \<open>Counter-evidence after the exact calculation (\<open>enkel_bayes\<close>)\<close>

text \<open>
  The handler of the button "Ber\<open>\<dots>\<close>kna Bayes (Exakt)", lines 559-662. In interval mode
  the loop over the counter-evidence updates three running values (\<open>current_min\<close>,
  \<open>current_median\<close>, \<open>current_max\<close>; here \<open>cur_min\<close>, \<open>cur_median\<close>, \<open>cur_max\<close>, the
  longer names being fields of \<open>interval_state\<close>), and the three lists
  are appended to after the loop (lines 594-596). In point mode every counter-evidence
  item appends a posterior and a row inside the loop (lines 643-653).
\<close>

fun motbevis_interval_loop ::
  "(real \<times> real) list \<Rightarrow> real \<times> real \<times> real \<Rightarrow> error + (real \<times> real \<times> real)"
where
  "motbevis_interval_loop [] c = Inr c"
| "motbevis_interval_loop ((nbga, nbgna) # ns) (cur_min, cur_median, cur_max) =
     (case bayes_update nbga nbgna cur_min of
        Inl e \<Rightarrow> Inl e
      | Inr new_min \<Rightarrow>
          (case bayes_update nbga nbgna cur_median of
             Inl e \<Rightarrow> Inl e
           | Inr new_med \<Rightarrow>
               (case bayes_update nbga nbgna cur_max of
                  Inl e \<Rightarrow> Inl e
                | Inr new_max \<Rightarrow> motbevis_interval_loop ns (new_min, new_med, new_max))))"

definition motbevis_interval ::
  "real list \<Rightarrow> real list \<Rightarrow> real list \<Rightarrow> (real \<times> real) list \<Rightarrow> error + bayes_result"
where
  "motbevis_interval min_posts median_posts max_posts negative_bevis_data =
     (case py_last min_posts of
        Inl e \<Rightarrow> Inl e
      | Inr cur_min \<Rightarrow>
     (case py_last median_posts of
        Inl e \<Rightarrow> Inl e
      | Inr cur_median \<Rightarrow>
     (case py_last max_posts of
        Inl e \<Rightarrow> Inl e
      | Inr cur_max \<Rightarrow>
     (case motbevis_interval_loop negative_bevis_data
             (cur_min, cur_median, cur_max) of
        Inl e \<Rightarrow> Inl e
      | Inr (new_min, new_med, new_max) \<Rightarrow>
          Inr (Intervall_resultat (min_posts @ [new_min]) (median_posts @ [new_med])
                 (max_posts @ [new_max]))))))"

fun motbevis_point_loop ::
  "(real \<times> real) list \<Rightarrow> nat \<Rightarrow> real \<Rightarrow> real list \<Rightarrow> row list \<Rightarrow> error + (real list \<times> row list)"
where
  "motbevis_point_loop [] i_beviscount current_post posterior_list row_list_final =
     Inr (posterior_list, row_list_final)"
| "motbevis_point_loop ((nbga, nbgna) # ns) i_beviscount current_post posterior_list
      row_list_final =
     (let i_beviscount = i_beviscount + 1;
          old = current_post
      in case bayes_update nbga nbgna old of
           Inl e \<Rightarrow> Inl e
         | Inr new_p \<Rightarrow>
             (let delta = (new_p - old) * 100;
                  new_p_pct = new_p * 100
              in motbevis_point_loop ns i_beviscount new_p (posterior_list @ [new_p])
                   (row_list_final @
                    [\<lparr>row_nr = Motbevis i_beviscount, row_pba = nbga * 100,
                      row_pbna = nbgna * 100, gammal_post = old * 100, ny_post = new_p_pct,
                      forandring = delta, row_kommentar = motbevis_kommentar new_p_pct\<rparr>])))"

definition motbevis_point ::
  "real list \<Rightarrow> row list \<Rightarrow> (real \<times> real) list \<Rightarrow> error + bayes_result"
where
  "motbevis_point posterior_list row_list negative_bevis_data =
     (case py_last posterior_list of
        Inl e \<Rightarrow> Inl e
      | Inr current_post \<Rightarrow>
          (case motbevis_point_loop negative_bevis_data (length row_list) current_post
                  posterior_list row_list of
             Inl e \<Rightarrow> Inl e
           | Inr (pl, rl) \<Rightarrow> Inr (Punkt_resultat pl rl)))"

text \<open>
  \<open>negative_bevis_data\<close> has \<open>negative_count\<close> entries when the counter-evidence section
  is enabled (lines 487-518), so \<open>negative_count > 0\<close> is read off the list.
\<close>

definition berakna_bayes_exakt ::
  "real \<Rightarrow> bevis_data \<Rightarrow> bool \<Rightarrow> (real \<times> real) list \<Rightarrow> error + bayes_result"
where
  "berakna_bayes_exakt prior bevis enable_negative_evidence negative_bevis_data =
     (case do_exact_bayes_calculation prior bevis of
        Inl e \<Rightarrow> Inl e
      | Inr result \<Rightarrow>
          if enable_negative_evidence \<and> length negative_bevis_data > 0 then
            (case result of
               Intervall_resultat min_posts median_posts max_posts \<Rightarrow>
                 motbevis_interval min_posts median_posts max_posts negative_bevis_data
             | Punkt_resultat posterior_list row_list \<Rightarrow>
                 motbevis_point posterior_list row_list negative_bevis_data)
          else Inr result)"

subsection \<open>Monte Carlo simulation (\<open>enkel_bayes\<close>)\<close>

text \<open>
  \<open>random.uniform(a, b)\<close> is \<open>a + (b - a) * random()\<close>. The random source is the
  sequence \<open>rnd\<close> of the values that successive calls of \<open>random()\<close> return, read with a
  counter that is threaded through the loops; nothing is assumed about its values.
\<close>

definition uniform :: "real \<Rightarrow> real \<Rightarrow> real \<Rightarrow> real" where
  "uniform a b u = a + (b - a) * u"

fun mc_bevis_loop ::
  "(nat \<Rightarrow> real) \<Rightarrow> (real \<times> real \<times> real \<times> real) list \<Rightarrow> nat \<Rightarrow> real \<Rightarrow> error + (real \<times> nat)"
where
  "mc_bevis_loop rnd [] k post = Inr (post, k)"
| "mc_bevis_loop rnd ((mina, maxa, minna, maxna) # bs) k post =
     (let pba = uniform mina maxa (rnd k);
          pbna = uniform minna maxna (rnd (k + 1))
      in case bayes_update pba pbna post of
           Inl e \<Rightarrow> Inl e
         | Inr post' \<Rightarrow> mc_bevis_loop rnd bs (k + 2) post')"

fun mc_motbevis_loop :: "(real \<times> real) list \<Rightarrow> real \<Rightarrow> error + real" where
  "mc_motbevis_loop [] post = Inr post"
| "mc_motbevis_loop ((nbga, nbgna) # ns) post =
     (let pba_neg = nbga; pbna_neg = nbgna
      in case bayes_update pba_neg pbna_neg post of
           Inl e \<Rightarrow> Inl e
         | Inr post' \<Rightarrow> mc_motbevis_loop ns post')"

definition mc_trial ::
  "(nat \<Rightarrow> real) \<Rightarrow> real \<Rightarrow> (real \<times> real \<times> real \<times> real) list \<Rightarrow> bool \<Rightarrow> (real \<times> real) list \<Rightarrow>
   nat \<Rightarrow> error + (real \<times> nat)"
where
  "mc_trial rnd prior bevis_data enable_negative_evidence negative_bevis_data k =
     (case mc_bevis_loop rnd bevis_data k prior of
        Inl e \<Rightarrow> Inl e
      | Inr (post, k') \<Rightarrow>
          if enable_negative_evidence \<and> length negative_bevis_data > 0 then
            (case mc_motbevis_loop negative_bevis_data post of
               Inl e \<Rightarrow> Inl e
             | Inr post' \<Rightarrow> Inr (post', k'))
          else Inr (post, k'))"

fun mc_samples ::
  "nat \<Rightarrow> (nat \<Rightarrow> real) \<Rightarrow> real \<Rightarrow> (real \<times> real \<times> real \<times> real) list \<Rightarrow> bool \<Rightarrow> (real \<times> real) list \<Rightarrow>
   nat \<Rightarrow> real list \<Rightarrow> error + real list"
where
  "mc_samples 0 rnd prior bevis_data en neg k results = Inr results"
| "mc_samples (Suc n) rnd prior bevis_data en neg k results =
     (case mc_trial rnd prior bevis_data en neg k of
        Inl e \<Rightarrow> Inl e
      | Inr (post, k') \<Rightarrow>
          mc_samples n rnd prior bevis_data en neg k' (results @ [post * 100]))"

definition n_samples :: nat where
  "n_samples = 1000"

definition monte_carlo ::
  "bool \<Rightarrow> (nat \<Rightarrow> real) \<Rightarrow> real \<Rightarrow> (real \<times> real \<times> real \<times> real) list \<Rightarrow> bool \<Rightarrow> (real \<times> real) list \<Rightarrow>
   error + real list"
where
  "monte_carlo widget_use_intervals rnd prior bevis_data enable_negative_evidence
      negative_bevis_data =
     (if \<not> widget_use_intervals then Inl Intervall_lage_maste_vara_aktiverat
      else mc_samples n_samples rnd prior bevis_data enable_negative_evidence
             negative_bevis_data 0 [])"

subsection \<open>Star-shaped Bayesian network (\<open>bayesian_network_demo\<close>)\<close>

fun product_loop :: "real list \<Rightarrow> real \<Rightarrow> real" where
  "product_loop [] acc = acc"
| "product_loop (x # xs) acc = product_loop xs (acc * x)"

definition bayesian_network_demo :: "real \<Rightarrow> (real \<times> real) list \<Rightarrow> error + real" where
  "bayesian_network_demo p_s_true bevis_bn =
     (let p_s_false = 1 - p_s_true;
          product_if_s = product_loop (map fst bevis_bn) 1;
          top = p_s_true * product_if_s;
          product_if_ns = product_loop (map snd bevis_bn) 1;
          bottom = top + p_s_false * product_if_ns
      in if bottom = 0 then Inr 0 else py_div top bottom)"

subsection \<open>Dempster-Shafer combination (\<open>dempster_shafer_demo\<close>)\<close>

text \<open>
  \<open>dempster_shafer_demo\<close> is the combination in exact arithmetic;
  \<open>dempster_shafer_demo_double\<close> below rounds every operation to double.
\<close>

record ds_result =
  m_skyldig :: real
  m_oskuld :: real
  m_okand :: real
  ds_conflict :: real
  ds_K :: real

definition dempster_shafer_demo :: "real \<Rightarrow> real \<Rightarrow> real \<Rightarrow> real \<Rightarrow> error + ds_result" where
  "dempster_shafer_demo bA_skuld bA_oskuld bB_skuld bB_oskuld =
     (if bA_skuld + bA_oskuld > 1 then Inl Summan_kan_ej_overstiga_1
      else
        let bA_okand = 1 - (bA_skuld + bA_oskuld) in
        if bB_skuld + bB_oskuld > 1 then Inl Summan_kan_ej_overstiga_1
        else
          let bB_okand = 1 - (bB_skuld + bB_oskuld);
              conflict = bA_skuld * bB_oskuld + bA_oskuld * bB_skuld;
              K = 1 - conflict
          in if K = 0 then Inl Total_konflikt
             else
               let m_skyldig_num = bA_skuld * bB_skuld + bA_skuld * bB_okand + bA_okand * bB_skuld
               in case py_div m_skyldig_num K of
                    Inl e \<Rightarrow> Inl e
                  | Inr m_s \<Rightarrow>
                      (let m_oskuld_num =
                             bA_oskuld * bB_oskuld + bA_oskuld * bB_okand + bA_okand * bB_oskuld
                       in case py_div m_oskuld_num K of
                            Inl e \<Rightarrow> Inl e
                          | Inr m_o \<Rightarrow>
                              Inr \<lparr>m_skyldig = m_s, m_oskuld = m_o,
                                   m_okand = 1 - (m_s + m_o),
                                   ds_conflict = conflict, ds_K = K\<rparr>))"

subsection \<open>Double-precision arithmetic\<close>







section \<open>Properties\<close>

subsection \<open>The update step\<close>

lemma bayes_update_total: "\<exists>v. bayes_update pba pbna old = Inr v"
  by (simp add: bayes_update_def py_div_def Let_def)


lemma bayes_update_zero_denominator:
  "pba * old + pbna * (1 - old) = 0 \<Longrightarrow> bayes_update pba pbna old = Inr 0"
  by (simp add: bayes_update_def Let_def)

lemma bayes_update_at_zero: "bayes_update pba pbna 0 = Inr 0"
  by (simp add: bayes_update_def py_div_def Let_def)

lemma do_exact_single_point:
  "bayes_update pba pbna prior = Inr v \<Longrightarrow>
   \<exists>rows. do_exact_bayes_calculation prior (Punkt_bevis [(pba, pbna)]) =
     Inr (Punkt_resultat [prior, v] rows)"
  by (simp add: do_exact_bayes_calculation_def Let_def)


subsection \<open>The loops\<close>

lemma mc_motbevis_loop_total: "\<exists>v. mc_motbevis_loop ns post = Inr v"
proof (induction ns arbitrary: post)
  case Nil
  show ?case by simp
next
  case (Cons n ns)
  obtain nbga nbgna where n: "n = (nbga, nbgna)" by (cases n)
  obtain v where v: "bayes_update nbga nbgna post = Inr v"
    using bayes_update_total by blast
  from Cons.IH [of v] show ?case by (simp add: n v)
qed

lemma point_loop_chain:
  "\<exists>pl' rl'. point_loop bs i cur pl rl = Inr (pl @ pl', rl @ rl')
      \<and> length pl' = length bs \<and> length rl' = length bs
      \<and> mc_motbevis_loop bs cur = Inr (last (cur # pl'))"
proof (induction bs arbitrary: i cur pl rl)
  case Nil
  show ?case by simp
next
  case (Cons b bs)
  obtain pba pbna where b: "b = (pba, pbna)" by (cases b)
  obtain v where v: "bayes_update pba pbna cur = Inr v"
    using bayes_update_total by blast
  let ?row = "\<lparr>row_nr = Bevis i, row_pba = pba * 100, row_pbna = pbna * 100,
                gammal_post = cur * 100, ny_post = v * 100, forandring = (v - cur) * 100,
                row_kommentar = bevis_kommentar (v * 100)\<rparr>"
  from Cons.IH [of "i + 1" v "pl @ [v]" "rl @ [?row]"] obtain pl' rl' where
    ih: "point_loop bs (i + 1) v (pl @ [v]) (rl @ [?row]) = Inr ((pl @ [v]) @ pl', (rl @ [?row]) @ rl')"
      "length pl' = length bs" "length rl' = length bs"
      "mc_motbevis_loop bs v = Inr (last (v # pl'))"
    by blast
  have "point_loop (b # bs) i cur pl rl = Inr (pl @ (v # pl'), rl @ (?row # rl'))"
    using ih(1) by (simp add: b v Let_def)
  moreover have "mc_motbevis_loop (b # bs) cur = Inr (last (cur # v # pl'))"
    using ih(4) by (simp add: b v)
  ultimately show ?case using ih(2,3)
    by (intro exI [of _ "v # pl'"] exI [of _ "?row # rl'"]) simp
qed

lemma motbevis_point_loop_chain:
  "\<exists>pl' rl'. motbevis_point_loop ns i cur pl rl = Inr (pl @ pl', rl @ rl')
      \<and> length pl' = length ns \<and> length rl' = length ns
      \<and> mc_motbevis_loop ns cur = Inr (last (cur # pl'))"
proof (induction ns arbitrary: i cur pl rl)
  case Nil
  show ?case by simp
next
  case (Cons b bs)
  obtain pba pbna where b: "b = (pba, pbna)" by (cases b)
  obtain v where v: "bayes_update pba pbna cur = Inr v"
    using bayes_update_total by blast
  let ?row = "\<lparr>row_nr = Motbevis (i + 1), row_pba = pba * 100, row_pbna = pbna * 100,
                gammal_post = cur * 100, ny_post = v * 100, forandring = (v - cur) * 100,
                row_kommentar = motbevis_kommentar (v * 100)\<rparr>"
  from Cons.IH [of "i + 1" v "pl @ [v]" "rl @ [?row]"] obtain pl' rl' where
    ih: "motbevis_point_loop bs (i + 1) v (pl @ [v]) (rl @ [?row]) = Inr ((pl @ [v]) @ pl', (rl @ [?row]) @ rl')"
      "length pl' = length bs" "length rl' = length bs"
      "mc_motbevis_loop bs v = Inr (last (v # pl'))"
    by blast
  have "motbevis_point_loop (b # bs) i cur pl rl = Inr (pl @ (v # pl'), rl @ (?row # rl'))"
    using ih(1) by (simp add: b v Let_def)
  moreover have "mc_motbevis_loop (b # bs) cur = Inr (last (cur # v # pl'))"
    using ih(4) by (simp add: b v)
  ultimately show ?case using ih(2,3)
    by (intro exI [of _ "v # pl'"] exI [of _ "?row # rl'"]) simp
qed

lemma mc_motbevis_loop_at_zero: "mc_motbevis_loop ns 0 = Inr 0"
  by (induction ns) (auto simp: bayes_update_at_zero)

lemma mc_bevis_loop_at_zero: "mc_bevis_loop rnd bs k 0 = Inr (0, k + 2 * length bs)"
  by (induction bs arbitrary: k) (auto simp: bayes_update_at_zero Let_def)

lemma point_loop_at_zero:
  "\<exists>rows. point_loop bs i 0 pl rl = Inr (pl @ replicate (length bs) 0, rows)"
proof (induction bs arbitrary: i pl rl)
  case Nil
  show ?case by simp
next
  case (Cons b bs)
  obtain pba pbna where b: "b = (pba, pbna)" by (cases b)
  let ?row = "\<lparr>row_nr = Bevis i, row_pba = pba * 100, row_pbna = pbna * 100,
                gammal_post = 0 * 100, ny_post = 0 * 100, forandring = (0 - 0) * 100,
                row_kommentar = bevis_kommentar (0 * 100)\<rparr>"
  from Cons.IH [of "i + 1" "pl @ [0]" "rl @ [?row]"] obtain rows where
    "point_loop bs (i + 1) 0 (pl @ [0]) (rl @ [?row]) =
       Inr ((pl @ [0]) @ replicate (length bs) 0, rows)" ..
  then have "point_loop (b # bs) i 0 pl rl = Inr (pl @ replicate (length (b # bs)) 0, rows)"
    by (simp add: b bayes_update_at_zero Let_def)
  then show ?case ..
qed

lemma motbevis_point_loop_at_zero:
  "\<exists>rows. motbevis_point_loop ns i 0 pl rl = Inr (pl @ replicate (length ns) 0, rows)"
proof (induction ns arbitrary: i pl rl)
  case Nil
  show ?case by simp
next
  case (Cons b bs)
  obtain pba pbna where b: "b = (pba, pbna)" by (cases b)
  let ?row = "\<lparr>row_nr = Motbevis (i + 1), row_pba = pba * 100, row_pbna = pbna * 100,
                gammal_post = 0 * 100, ny_post = 0 * 100, forandring = (0 - 0) * 100,
                row_kommentar = motbevis_kommentar (0 * 100)\<rparr>"
  from Cons.IH [of "i + 1" "pl @ [0]" "rl @ [?row]"] obtain rows where
    "motbevis_point_loop bs (i + 1) 0 (pl @ [0]) (rl @ [?row]) =
       Inr ((pl @ [0]) @ replicate (length bs) 0, rows)" ..
  then have "motbevis_point_loop (b # bs) i 0 pl rl =
      Inr (pl @ replicate (length (b # bs)) 0, rows)"
    by (simp add: b bayes_update_at_zero Let_def)
  then show ?case ..
qed

lemma motbevis_interval_loop_at_zero:
  "motbevis_interval_loop ns (0, 0, 0) = Inr (0, 0, 0)"
  by (induction ns) (auto simp: bayes_update_at_zero)

lemma mc_trial_at_zero:
  "mc_trial rnd 0 bevis_data en neg k = Inr (0, k + 2 * length bevis_data)"
  by (simp add: mc_trial_def mc_bevis_loop_at_zero mc_motbevis_loop_at_zero)

text \<open>
  Claim C10. Zero is absorbing: the update applied to a running posterior of 0 returns 0
  for every probability pair, so a loop over evidence, over counter-evidence, or of a
  Monte Carlo trial that is entered with running posterior 0 produces only zeros,
  whatever the remaining items (and whatever the random source draws).
\<close>

theorem zero_is_absorbing:
  "bayes_update pba pbna 0 = Inr 0
   \<and> (\<exists>rows. point_loop bs i 0 posterior_list row_list =
         Inr (posterior_list @ replicate (length bs) 0, rows))
   \<and> (\<exists>rows. motbevis_point_loop ns j 0 posterior_list row_list =
         Inr (posterior_list @ replicate (length ns) 0, rows))
   \<and> motbevis_interval_loop ns (0, 0, 0) = Inr (0, 0, 0)
   \<and> mc_bevis_loop rnd ibs k 0 = Inr (0, k + 2 * length ibs)
   \<and> mc_motbevis_loop ns 0 = Inr 0
   \<and> mc_trial rnd 0 ibs en ns k = Inr (0, k + 2 * length ibs)"
  using bayes_update_at_zero point_loop_at_zero motbevis_point_loop_at_zero
    motbevis_interval_loop_at_zero mc_bevis_loop_at_zero mc_motbevis_loop_at_zero
    mc_trial_at_zero
  by blast

subsection \<open>Interval form\<close>

lemma interval_step_shape:
  "\<exists>new_min new_med new_max.
      interval_step b s =
        Inr (s\<lparr>min_post_list := min_post_list s @ [new_min], current_min := new_min,
               median_post_list := median_post_list s @ [new_med], current_median := new_med,
               current_max := new_max\<rparr>)"
proof -
  obtain mina maxa minna maxna where b: "b = (mina, maxa, minna, maxna)" by (metis prod_cases4)
  obtain v1 where v1: "bayes_update mina minna (current_min s) = Inr v1"
    using bayes_update_total by blast
  obtain v2 where v2:
    "bayes_update ((mina + maxa) / 2) ((minna + maxna) / 2) (current_median s) = Inr v2"
    using bayes_update_total by blast
  obtain v3 where v3: "bayes_update maxa maxna (current_max s) = Inr v3"
    using bayes_update_total by blast
  have "interval_step b s =
        Inr (s\<lparr>min_post_list := min_post_list s @ [v1], current_min := v1,
               median_post_list := median_post_list s @ [v2], current_median := v2,
               current_max := v3\<rparr>)"
    by (simp add: interval_step_def b v1 v2 v3 Let_def)
  then show ?thesis by blast
qed

lemma interval_loop_shape:
  "\<exists>s'. interval_loop bs s = Inr s'
      \<and> max_post_list s' = max_post_list s
      \<and> (\<exists>ms. min_post_list s' = min_post_list s @ ms \<and> length ms = length bs)
      \<and> (\<exists>ms. median_post_list s' = median_post_list s @ ms \<and> length ms = length bs)"
proof (induction bs arbitrary: s)
  case Nil
  show ?case by simp
next
  case (Cons b bs)
  from interval_step_shape [of b s] obtain new_min new_med new_max where
    st: "interval_step b s =
        Inr (s\<lparr>min_post_list := min_post_list s @ [new_min], current_min := new_min,
               median_post_list := median_post_list s @ [new_med], current_median := new_med,
               current_max := new_max\<rparr>)" by blast
  let ?s1 = "s\<lparr>min_post_list := min_post_list s @ [new_min], current_min := new_min,
               median_post_list := median_post_list s @ [new_med], current_median := new_med,
               current_max := new_max\<rparr>"
  from Cons.IH [of ?s1] obtain s' ms1 ms2 where
    ih: "interval_loop bs ?s1 = Inr s'" "max_post_list s' = max_post_list ?s1"
      "min_post_list s' = min_post_list ?s1 @ ms1" "length ms1 = length bs"
      "median_post_list s' = median_post_list ?s1 @ ms2" "length ms2 = length bs"
    by blast
  have 1: "interval_loop (b # bs) s = Inr s'" using ih(1) by (simp add: st)
  have 2: "max_post_list s' = max_post_list s" using ih(2) by simp
  have 3: "min_post_list s' = min_post_list s @ (new_min # ms1)" using ih(3) by simp
  have 4: "median_post_list s' = median_post_list s @ (new_med # ms2)" using ih(5) by simp
  have 5: "length (new_min # ms1) = length (b # bs)" using ih(4) by simp
  have 6: "length (new_med # ms2) = length (b # bs)" using ih(6) by simp
  from 1 2 3 4 5 6 show ?case by blast
qed

lemma do_exact_interval_shape:
  "\<exists>ms ds. do_exact_bayes_calculation prior (Intervall_bevis bs) =
       Inr (Intervall_resultat (prior # ms) (prior # ds) [prior])
     \<and> length ms = length bs \<and> length ds = length bs"
proof -
  let ?s0 = "\<lparr>min_post_list = [prior], median_post_list = [prior],
              max_post_list = [prior], current_min = prior,
              current_median = prior, current_max = prior\<rparr>"
  from interval_loop_shape [of bs ?s0] obtain s' ms ds where
    s: "interval_loop bs ?s0 = Inr s'" "max_post_list s' = [prior]"
       "min_post_list s' = [prior] @ ms" "length ms = length bs"
       "median_post_list s' = [prior] @ ds" "length ds = length bs"
    by auto
  have "do_exact_bayes_calculation prior (Intervall_bevis bs) =
       Inr (Intervall_resultat (prior # ms) (prior # ds) [prior])"
    using s(2,3,5) by (simp add: do_exact_bayes_calculation_def s(1))
  with s(4,6) show ?thesis by blast
qed

lemma do_exact_point_shape:
  "\<exists>ps rows. do_exact_bayes_calculation prior (Punkt_bevis bs) =
       Inr (Punkt_resultat (prior # ps) rows)
     \<and> length ps = length bs \<and> length rows = length bs
     \<and> mc_motbevis_loop bs prior = Inr (last (prior # ps))"
proof -
  from point_loop_chain [of bs 1 prior "[prior]" "[]"] obtain pl' rl' where
    l: "point_loop bs 1 prior [prior] [] = Inr ([prior] @ pl', [] @ rl')"
       "length pl' = length bs" "length rl' = length bs"
       "mc_motbevis_loop bs prior = Inr (last (prior # pl'))"
    by blast
  have "do_exact_bayes_calculation prior (Punkt_bevis bs) = Inr (Punkt_resultat (prior # pl') rl')"
    using l(1) by (simp add: do_exact_bayes_calculation_def)
  with l(2,3,4) show ?thesis by blast
qed

lemma do_exact_total: "\<exists>r. do_exact_bayes_calculation prior bevis = Inr r"
proof (cases bevis)
  case (Intervall_bevis bs)
  then show ?thesis using do_exact_interval_shape [of prior bs] by blast
next
  case (Punkt_bevis bs)
  then show ?thesis using do_exact_point_shape [of prior bs] by blast
qed

lemma motbevis_interval_loop_total: "\<exists>c. motbevis_interval_loop ns c0 = Inr c"
proof (induction ns arbitrary: c0)
  case Nil
  show ?case by (cases c0 rule: prod_cases3) simp
next
  case (Cons n ns)
  obtain nbga nbgna where n: "n = (nbga, nbgna)" by (cases n)
  obtain a b c where c0: "c0 = (a, b, c)" by (metis prod_cases3)
  obtain v1 where v1: "bayes_update nbga nbgna a = Inr v1" using bayes_update_total by blast
  obtain v2 where v2: "bayes_update nbga nbgna b = Inr v2" using bayes_update_total by blast
  obtain v3 where v3: "bayes_update nbga nbgna c = Inr v3" using bayes_update_total by blast
  from Cons.IH [of "(v1, v2, v3)"] show ?case by (simp add: n c0 v1 v2 v3)
qed

lemma motbevis_interval_shape:
  assumes "mins \<noteq> []" "meds \<noteq> []" "maxs \<noteq> []"
  shows "\<exists>a b c. motbevis_interval mins meds maxs ns =
           Inr (Intervall_resultat (mins @ [a]) (meds @ [b]) (maxs @ [c]))
         \<and> motbevis_interval_loop ns (last mins, last meds, last maxs) = Inr (a, b, c)"
proof -
  obtain r where r: "motbevis_interval_loop ns (last mins, last meds, last maxs) = Inr r"
    using motbevis_interval_loop_total by blast
  obtain a b c where abc: "r = (a, b, c)" by (metis prod_cases3)
  have "motbevis_interval mins meds maxs ns =
           Inr (Intervall_resultat (mins @ [a]) (meds @ [b]) (maxs @ [c]))"
    using assms by (simp add: motbevis_interval_def py_last_def r abc)
  with r abc show ?thesis by blast
qed

lemma motbevis_point_shape:
  assumes "pl \<noteq> []"
  shows "\<exists>pl' rl'. motbevis_point pl rl ns = Inr (Punkt_resultat (pl @ pl') (rl @ rl'))
         \<and> length pl' = length ns \<and> length rl' = length ns
         \<and> mc_motbevis_loop ns (last pl) = Inr (last (pl @ pl'))"
proof -
  from motbevis_point_loop_chain [of ns "length rl" "last pl" pl rl] obtain pl' rl' where
    l: "motbevis_point_loop ns (length rl) (last pl) pl rl = Inr (pl @ pl', rl @ rl')"
       "length pl' = length ns" "length rl' = length ns"
       "mc_motbevis_loop ns (last pl) = Inr (last (last pl # pl'))"
    by blast
  have "motbevis_point pl rl ns = Inr (Punkt_resultat (pl @ pl') (rl @ rl'))"
    using assms by (simp add: motbevis_point_def py_last_def l(1))
  moreover have "last (last pl # pl') = last (pl @ pl')"
    using assms by (cases pl') simp_all
  ultimately show ?thesis using l(2,3,4) by auto
qed

lemma berakna_bayes_exakt_total: "\<exists>r. berakna_bayes_exakt prior bevis en ns = Inr r"
proof (cases bevis)
  case (Intervall_bevis bs)
  from do_exact_interval_shape [of prior bs] obtain ms ds where
    r: "do_exact_bayes_calculation prior (Intervall_bevis bs) =
       Inr (Intervall_resultat (prior # ms) (prior # ds) [prior])" by blast
  from motbevis_interval_shape [of "prior # ms" "prior # ds" "[prior]" ns]
  obtain r' where "motbevis_interval (prior # ms) (prior # ds) [prior] ns = Inr r'" by auto
  then show ?thesis by (simp add: berakna_bayes_exakt_def Intervall_bevis r)
next
  case (Punkt_bevis bs)
  from do_exact_point_shape [of prior bs] obtain ps rows where
    r: "do_exact_bayes_calculation prior (Punkt_bevis bs) = Inr (Punkt_resultat (prior # ps) rows)"
    by blast
  from motbevis_point_shape [of "prior # ps" rows ns]
  obtain r' where "motbevis_point (prior # ps) rows ns = Inr r'" by auto
  then show ?thesis by (simp add: berakna_bayes_exakt_def Punkt_bevis r)
qed

subsection \<open>Monte Carlo\<close>

lemma mc_bevis_loop_total:
  "\<exists>v. mc_bevis_loop rnd bs k post = Inr (v, k + 2 * length bs)"
proof (induction bs arbitrary: k post)
  case Nil
  show ?case by simp
next
  case (Cons b bs)
  obtain mina maxa minna maxna where b: "b = (mina, maxa, minna, maxna)" by (metis prod_cases4)
  obtain v where v:
    "bayes_update (uniform mina maxa (rnd k)) (uniform minna maxna (rnd (Suc k))) post = Inr v"
    using bayes_update_total by blast
  from Cons.IH [of "k + 2" v] obtain w where
    "mc_bevis_loop rnd bs (k + 2) v = Inr (w, k + 2 + 2 * length bs)" by blast
  then have "mc_bevis_loop rnd (b # bs) k post = Inr (w, k + 2 * length (b # bs))"
    by (simp add: b v Let_def)
  then show ?case by blast
qed

lemma mc_trial_total:
  "\<exists>v. mc_trial rnd prior bs en ns k = Inr (v, k + 2 * length bs)"
proof -
  obtain v where v: "mc_bevis_loop rnd bs k prior = Inr (v, k + 2 * length bs)"
    using mc_bevis_loop_total by blast
  obtain w where w: "mc_motbevis_loop ns v = Inr w"
    using mc_motbevis_loop_total by blast
  show ?thesis by (simp add: mc_trial_def v w)
qed

lemma mc_samples_total:
  "\<exists>rs. mc_samples n rnd prior bs en ns k results = Inr (results @ rs) \<and> length rs = n"
proof (induction n arbitrary: k results)
  case 0
  show ?case by simp
next
  case (Suc n)
  obtain v where v: "mc_trial rnd prior bs en ns k = Inr (v, k + 2 * length bs)"
    using mc_trial_total by blast
  from Suc.IH [of "k + 2 * length bs" "results @ [v * 100]"] obtain rs where
    rs: "mc_samples n rnd prior bs en ns (k + 2 * length bs) (results @ [v * 100]) =
           Inr ((results @ [v * 100]) @ rs)" "length rs = n" by blast
  have "mc_samples (Suc n) rnd prior bs en ns k results = Inr (results @ (v * 100 # rs))"
    using rs(1) by (simp add: v)
  moreover have "length (v * 100 # rs) = Suc n" using rs(2) by simp
  ultimately show ?case by blast
qed

lemma monte_carlo_total:
  "\<exists>rs. monte_carlo True rnd prior bs en ns = Inr rs \<and> length rs = n_samples"
  using mc_samples_total [of n_samples rnd prior bs en ns 0 "[]"]
  by (simp add: monte_carlo_def)

lemma bayesian_network_demo_total: "\<exists>v. bayesian_network_demo p bn = Inr v"
  by (simp add: bayesian_network_demo_def py_div_def Let_def)

text \<open>
  Claim C7. No core computation faults: for all numeric inputs (in particular those in
  the stated domains) the update step, the exact calculation in point and interval form,
  its counter-evidence continuation, the Monte Carlo simulation and the star-network
  posterior return a value and never \<open>ZeroDivisionError\<close> (or \<open>IndexError\<close>); and where the
  denominator of the update step, or \<open>bottom\<close> of the star network, is zero, the result
  is 0.
\<close>

theorem no_division_fault:
  "(\<exists>v. bayes_update pba pbna old = Inr v \<and> (pba * old + pbna * (1 - old) = 0 \<longrightarrow> v = 0))
   \<and> (\<exists>r. do_exact_bayes_calculation prior bevis = Inr r)
   \<and> (\<exists>r. berakna_bayes_exakt prior bevis en ns = Inr r)
   \<and> (\<exists>rs. monte_carlo True rnd prior ibs en ns = Inr rs \<and> length rs = n_samples)
   \<and> (\<exists>v. bayesian_network_demo p bn = Inr v
         \<and> (p * product_loop (map fst bn) 1 + (1 - p) * product_loop (map snd bn) 1 = 0
              \<longrightarrow> v = 0))"
proof -
  have 1: "\<exists>v. bayes_update pba pbna old = Inr v \<and> (pba * old + pbna * (1 - old) = 0 \<longrightarrow> v = 0)"
    by (simp add: bayes_update_def py_div_def Let_def)
  have 5: "\<exists>v. bayesian_network_demo p bn = Inr v
         \<and> (p * product_loop (map fst bn) 1 + (1 - p) * product_loop (map snd bn) 1 = 0
              \<longrightarrow> v = 0)"
    by (simp add: bayesian_network_demo_def py_div_def Let_def)
  from 1 do_exact_total [of prior bevis] berakna_bayes_exakt_total [of prior bevis en ns]
    monte_carlo_total [of rnd prior ibs en ns] 5
  show ?thesis by blast
qed

theorem no_division_fault_witness:
  "bayes_update 0 0 (1/2) = Inr 0 \<and> bayesian_network_demo 0 [(1/2, 0)] = Inr 0"
  using no_division_fault [of 0 0 "1/2" 0 "Punkt_bevis []" False "[]" "\<lambda>_. 0" "[]" 0 "[(1/2, 0)]"]
  by simp

subsection \<open>Degenerate intervals\<close>

lemma uniform_degenerate: "uniform a a u = a"
  by (simp add: uniform_def)

lemma mc_bevis_loop_degenerate:
  assumes "\<forall>(mina, maxa, minna, maxna) \<in> set bs. mina = maxa \<and> minna = maxna"
    and "mc_motbevis_loop (map (\<lambda>(mina, maxa, minna, maxna). (mina, minna)) bs) post = Inr v"
  shows "mc_bevis_loop rnd bs k post = Inr (v, k + 2 * length bs)"
  using assms
proof (induction bs arbitrary: k post)
  case Nil
  then show ?case by simp
next
  case (Cons b bs)
  obtain mina maxa minna maxna where b: "b = (mina, maxa, minna, maxna)"
    by (metis prod_cases4)
  from Cons.prems(1) have deg: "maxa = mina" "maxna = minna"
    and rest: "\<forall>(mina, maxa, minna, maxna) \<in> set bs. mina = maxa \<and> minna = maxna"
    by (simp_all add: b)
  obtain w where w: "bayes_update mina minna post = Inr w"
    using bayes_update_total by blast
  from Cons.prems(2) have
    "mc_motbevis_loop (map (\<lambda>(mina, maxa, minna, maxna). (mina, minna)) bs) w = Inr v"
    by (simp add: b w)
  from Cons.IH [OF rest this, of "k + 2"]
  have "mc_bevis_loop rnd bs (k + 2) w = Inr (v, k + 2 + 2 * length bs)" .
  then show ?case
    by (simp add: b deg uniform_degenerate w Let_def)
qed

lemma mc_samples_constant:
  assumes "\<And>k. \<exists>k'. mc_trial rnd prior bs en ns k = Inr (v, k')"
  shows "mc_samples n rnd prior bs en ns k results = Inr (results @ replicate n (v * 100))"
proof (induction n arbitrary: k results)
  case 0
  show ?case by simp
next
  case (Suc n)
  from assms [of k] obtain k' where t: "mc_trial rnd prior bs en ns k = Inr (v, k')" ..
  have "mc_samples (Suc n) rnd prior bs en ns k results =
        mc_samples n rnd prior bs en ns k' (results @ [v * 100])"
    by (simp add: t)
  also have "\<dots> = Inr ((results @ [v * 100]) @ replicate n (v * 100))"
    by (rule Suc.IH)
  finally show ?case by (simp add: replicate_app_Cons_same)
qed

text \<open>
  Claim C8. When every interval item is degenerate (\<open>mina = maxa\<close> and \<open>minna = maxna\<close>),
  the Monte Carlo simulation returns 1000 samples, and every sample is the final
  posterior (as a percentage, the form in which samples are stored) of the exact point
  calculation on the fixed values \<open>(mina, minna)\<close> from the same prior, followed by the
  same counter-evidence when that is enabled; this holds for every random source \<open>rnd\<close>.
\<close>

theorem monte_carlo_degenerate_is_exact:
  assumes deg: "\<forall>(mina, maxa, minna, maxna) \<in> set bevis_data. mina = maxa \<and> minna = maxna"
  shows "\<exists>posterior_list rows results.
           berakna_bayes_exakt prior
             (Punkt_bevis (map (\<lambda>(mina, maxa, minna, maxna). (mina, minna)) bevis_data))
             enable_negative_evidence negative_bevis_data
             = Inr (Punkt_resultat posterior_list rows)
         \<and> monte_carlo True rnd prior bevis_data enable_negative_evidence negative_bevis_data
             = Inr results
         \<and> length results = 1000
         \<and> (\<forall>x \<in> set results. x = last posterior_list * 100)"
proof -
  let ?fixed = "map (\<lambda>(mina, maxa, minna, maxna). (mina, minna)) bevis_data"
  from do_exact_point_shape [of prior ?fixed] obtain ps rows where
    ex: "do_exact_bayes_calculation prior (Punkt_bevis ?fixed) =
           Inr (Punkt_resultat (prior # ps) rows)"
    and chain: "mc_motbevis_loop ?fixed prior = Inr (last (prior # ps))"
    by blast
  from motbevis_point_shape [of "prior # ps" rows negative_bevis_data] obtain pl' rl' where
    mb: "motbevis_point (prior # ps) rows negative_bevis_data =
           Inr (Punkt_resultat ((prior # ps) @ pl') (rows @ rl'))"
    and chain2: "mc_motbevis_loop negative_bevis_data (last (prior # ps)) =
           Inr (last ((prior # ps) @ pl'))"
    by auto
  have loop: "mc_bevis_loop rnd bevis_data k prior =
      Inr (last (prior # ps), k + 2 * length bevis_data)" for k
    using deg chain by (rule mc_bevis_loop_degenerate)
  have "\<exists>pl rl. berakna_bayes_exakt prior (Punkt_bevis ?fixed) enable_negative_evidence
                 negative_bevis_data = Inr (Punkt_resultat pl rl)
          \<and> (\<forall>k. \<exists>k'. mc_trial rnd prior bevis_data enable_negative_evidence
                 negative_bevis_data k = Inr (last pl, k'))"
  proof (cases "enable_negative_evidence \<and> length negative_bevis_data > 0")
    case True
    have "berakna_bayes_exakt prior (Punkt_bevis ?fixed) enable_negative_evidence
            negative_bevis_data = Inr (Punkt_resultat ((prior # ps) @ pl') (rows @ rl'))"
      using True by (simp add: berakna_bayes_exakt_def ex mb)
    moreover have "mc_trial rnd prior bevis_data enable_negative_evidence
            negative_bevis_data k = Inr (last ((prior # ps) @ pl'), k + 2 * length bevis_data)"
      for k
      unfolding mc_trial_def loop using True
        by (simp only: chain2 sum.case prod.case if_True simp_thms)
    ultimately show ?thesis by blast
  next
    case False
    have "berakna_bayes_exakt prior (Punkt_bevis ?fixed) enable_negative_evidence
            negative_bevis_data = Inr (Punkt_resultat (prior # ps) rows)"
      using False by (auto simp add: berakna_bayes_exakt_def ex)
    moreover have "mc_trial rnd prior bevis_data enable_negative_evidence
            negative_bevis_data k = Inr (last (prior # ps), k + 2 * length bevis_data)"
      for k
      unfolding mc_trial_def loop using False
        by (simp only: sum.case prod.case if_False simp_thms)
    ultimately show ?thesis by blast
  qed
  then obtain pl rl where
    exact: "berakna_bayes_exakt prior (Punkt_bevis ?fixed) enable_negative_evidence
                 negative_bevis_data = Inr (Punkt_resultat pl rl)"
    and trial: "\<And>k. \<exists>k'. mc_trial rnd prior bevis_data enable_negative_evidence
                 negative_bevis_data k = Inr (last pl, k')"
    by blast
  have "monte_carlo True rnd prior bevis_data enable_negative_evidence negative_bevis_data =
          Inr (replicate n_samples (last pl * 100))"
    using mc_samples_constant [of rnd prior bevis_data enable_negative_evidence
        negative_bevis_data "last pl" n_samples 0 "[]", OF trial]
    by (simp add: monte_carlo_def)
  moreover have "length (replicate n_samples (last pl * 100)) = 1000"
    by (simp add: n_samples_def)
  moreover have "\<forall>x \<in> set (replicate n_samples (last pl * 100)). x = last pl * 100"
    by simp
  ultimately show ?thesis using exact by blast
qed

theorem monte_carlo_degenerate_is_exact_witness:
  "\<exists>posterior_list rows results.
     berakna_bayes_exakt (1/2) (Punkt_bevis [(6/10, 1/10)]) True [(3/10, 7/10)]
       = Inr (Punkt_resultat posterior_list rows)
     \<and> monte_carlo True (\<lambda>k. 1 / (1 + real k)) (1/2) [(6/10, 6/10, 1/10, 1/10)] True [(3/10, 7/10)]
       = Inr results
     \<and> length results = 1000
     \<and> (\<forall>x \<in> set results. x = last posterior_list * 100)"
  using monte_carlo_degenerate_is_exact
    [of "[(6/10, 6/10, 1/10, 1/10)]" "1/2" True "[(3/10, 7/10)]" "\<lambda>k. 1 / (1 + real k)"]
  by simp

subsection \<open>Interval traces\<close>

text \<open>
  Claim C1 says that in interval mode each of the three lists (min, median, max) starts
  with the prior and gets one value per evidence item, so has length \<open>n + 1\<close>. The min
  and median lists do (\<open>do_exact_interval_shape\<close>), but the loop never appends to
  \<open>max_post_list\<close>: line 876 only assigns \<open>current_max\<close>, where the two sibling chains
  append at lines 862 and 870. For the prior \<open>1/2\<close> and the single item
  \<open>(0.6, 0.8, 0.1, 0.2)\<close> the max list is \<open>[1/2]\<close>, of length 1, not \<open>[1/2, 4/5]\<close>.
\<close>

theorem interval_max_list_not_appended:
  "do_exact_bayes_calculation (1/2) (Intervall_bevis [(6/10, 8/10, 1/10, 2/10)]) =
     Inr (Intervall_resultat [1/2, 6/7] [1/2, 14/17] [1/2])"
  by (simp add: do_exact_bayes_calculation_def interval_step_def bayes_update_def py_div_def
      Let_def)

text \<open>
  Claim C2 says that the counter-evidence continuation in interval mode extends each
  chain from its posterior after the last main evidence item and appends one value per
  counter-evidence item. The code appends once, after the loop (lines 594-596), whatever
  the number of items, where the point form appends inside the loop (line 653); and the
  max chain restarts from \<open>max_post_list[-1]\<close>, which is the prior. For the prior \<open>1/2\<close>,
  the item \<open>(0.6, 0.8, 0.1, 0.2)\<close> and two counter-evidence pairs \<open>(0.3, 0.7)\<close>, each list
  gets one more entry instead of two, and the max list ends in \<open>9/58\<close>, the two updates
  applied to \<open>1/2\<close>, not to the max posterior \<open>4/5\<close>.
\<close>

theorem interval_motbevis_appended_once:
  "berakna_bayes_exakt (1/2) (Intervall_bevis [(6/10, 8/10, 1/10, 2/10)]) True
       [(3/10, 7/10), (3/10, 7/10)] =
     Inr (Intervall_resultat [1/2, 6/7, 54/103] [1/2, 14/17, 6/13] [1/2, 9/58])"
  by (simp add: berakna_bayes_exakt_def motbevis_interval_def py_last_def
      do_exact_bayes_calculation_def interval_step_def bayes_update_def py_div_def Let_def)

subsection \<open>Star network\<close>

text \<open>
  Claim C4. With a single node \<open>(p_true_given_s, p_true_given_not_s)\<close> the star-network
  posterior is the value of one point update with the same prior and pair: it is the
  second entry of the posterior list of the point form on that item, and it is 0 when
  the denominator is zero.
\<close>

theorem star_network_single_node:
  "bayesian_network_demo p [(p_true_given_s, p_true_given_not_s)] =
     bayes_update p_true_given_s p_true_given_not_s p
   \<and> (\<exists>v rows. bayesian_network_demo p [(p_true_given_s, p_true_given_not_s)] = Inr v
        \<and> do_exact_bayes_calculation p (Punkt_bevis [(p_true_given_s, p_true_given_not_s)]) =
            Inr (Punkt_resultat [p, v] rows)
        \<and> (p_true_given_s * p + p_true_given_not_s * (1 - p) = 0 \<longrightarrow> v = 0))"
proof -
  let ?a = p_true_given_s and ?b = p_true_given_not_s
  have eq: "bayesian_network_demo p [(?a, ?b)] = bayes_update ?a ?b p"
    by (simp add: bayesian_network_demo_def bayes_update_def Let_def mult.commute)
  obtain v where v: "bayes_update ?a ?b p = Inr v"
    using bayes_update_total by blast
  from do_exact_single_point [OF v] obtain rows where
    r: "do_exact_bayes_calculation p (Punkt_bevis [(?a, ?b)]) = Inr (Punkt_resultat [p, v] rows)" ..
  have z: "?a * p + ?b * (1 - p) = 0 \<longrightarrow> v = 0"
    using v bayes_update_zero_denominator [of ?a p ?b] by auto
  from eq v r z show ?thesis by auto
qed

theorem star_network_single_node_witness:
  "bayesian_network_demo 0 [(1/2, 0)] = bayes_update (1/2) 0 0
   \<and> (\<exists>v rows. bayesian_network_demo 0 [(1/2, 0)] = Inr v
        \<and> do_exact_bayes_calculation 0 (Punkt_bevis [(1/2, 0)]) = Inr (Punkt_resultat [0, v] rows)
        \<and> v = 0)"
  using star_network_single_node [of 0 "1/2" 0] by (simp add: bayes_update_at_zero)

subsection \<open>Dempster-Shafer\<close>


text \<open>
  Claim C6. The combination fails exactly when the guilt and innocence masses of a
  source sum to more than 1, or when \<open>K = 1 - conflict\<close> is 0; the first is reported as
  "Summan kan ej \<open>\<dots>\<close>verstiga 1" before anything is combined, the second as total conflict,
  and in every other case the result is the combined triple with the conflict and \<open>K\<close>.
\<close>

theorem dempster_fails_exactly_when:
  "((\<exists>e. dempster_shafer_demo bA_skuld bA_oskuld bB_skuld bB_oskuld = Inl e) \<longleftrightarrow>
      (bA_skuld + bA_oskuld > 1 \<or> bB_skuld + bB_oskuld > 1
       \<or> 1 - (bA_skuld * bB_oskuld + bA_oskuld * bB_skuld) = 0))
   \<and> dempster_shafer_demo bA_skuld bA_oskuld bB_skuld bB_oskuld =
      (if bA_skuld + bA_oskuld > 1 \<or> bB_skuld + bB_oskuld > 1 then Inl Summan_kan_ej_overstiga_1
       else if 1 - (bA_skuld * bB_oskuld + bA_oskuld * bB_skuld) = 0 then Inl Total_konflikt
       else
         Inr \<lparr>m_skyldig =
                (bA_skuld * bB_skuld + bA_skuld * (1 - (bB_skuld + bB_oskuld))
                  + (1 - (bA_skuld + bA_oskuld)) * bB_skuld)
                / (1 - (bA_skuld * bB_oskuld + bA_oskuld * bB_skuld)),
              m_oskuld =
                (bA_oskuld * bB_oskuld + bA_oskuld * (1 - (bB_skuld + bB_oskuld))
                  + (1 - (bA_skuld + bA_oskuld)) * bB_oskuld)
                / (1 - (bA_skuld * bB_oskuld + bA_oskuld * bB_skuld)),
              m_okand =
                1 - ((bA_skuld * bB_skuld + bA_skuld * (1 - (bB_skuld + bB_oskuld))
                      + (1 - (bA_skuld + bA_oskuld)) * bB_skuld)
                     / (1 - (bA_skuld * bB_oskuld + bA_oskuld * bB_skuld))
                    + (bA_oskuld * bB_oskuld + bA_oskuld * (1 - (bB_skuld + bB_oskuld))
                       + (1 - (bA_skuld + bA_oskuld)) * bB_oskuld)
                      / (1 - (bA_skuld * bB_oskuld + bA_oskuld * bB_skuld))),
              ds_conflict = bA_skuld * bB_oskuld + bA_oskuld * bB_skuld,
              ds_K = 1 - (bA_skuld * bB_oskuld + bA_oskuld * bB_skuld)\<rparr>)"
  by (simp add: dempster_shafer_demo_def py_div_def Let_def)

theorem dempster_fails_exactly_when_witness:
  "dempster_shafer_demo (7/10) (5/10) (4/10) (3/10) = Inl Summan_kan_ej_overstiga_1
   \<and> dempster_shafer_demo (4/10) (3/10) (7/10) (5/10) = Inl Summan_kan_ej_overstiga_1
   \<and> dempster_shafer_demo 1 0 0 1 = Inl Total_konflikt
   \<and> dempster_shafer_demo (5/10) (2/10) (4/10) (3/10) =
       Inr \<lparr>m_skyldig = 47/77, m_oskuld = 3/11, m_okand = 9/77,
            ds_conflict = 23/100, ds_K = 77/100\<rparr>"
  using dempster_fails_exactly_when [of "7/10" "5/10" "4/10" "3/10"]
    dempster_fails_exactly_when [of "4/10" "3/10" "7/10" "5/10"]
    dempster_fails_exactly_when [of 1 0 0 1]
    dempster_fails_exactly_when [of "5/10" "2/10" "4/10" "3/10"]
  by simp

subsection \<open>The DNA scenario\<close>

text \<open>
  Claim C9 gives, for the prior 1%, \<open>P(B|guilty) = 95%\<close> and \<open>P(B|innocent) = 0.1%\<close>, a
  posterior of about 90.59%. The code computes \<open>950/1049\<close>, that is 90.5624...%, which
  does not round to 90.59.
\<close>

theorem scenario_posterior_not_90_59:
  "do_exact_bayes_calculation (1/100) (Punkt_bevis [(95/100, 1/1000)]) =
     Inr (Punkt_resultat [1/100, 950/1049]
       [\<lparr>row_nr = Bevis 1, row_pba = 95, row_pbna = 1/10, gammal_post = 1,
         ny_post = 95000/1049, forandring = 93951/1049,
         row_kommentar = Talar_starkt_for_skuld_80\<rparr>])
   \<and> \<not> (90585/1000 \<le> (950/1049 :: real) * 100 \<and> (950/1049 :: real) * 100 < 90595/1000)"
  by (simp add: do_exact_bayes_calculation_def bayes_update_def py_div_def Let_def
      bevis_kommentar_def)

text \<open>
  Claim C9, amended: in that scenario the point form produces the posterior \<open>950/1049\<close>,
  about 90.56%, and the label of the step is the one of the \<open>\<ge> 80\<close> threshold,
  "Talar starkt f\<open>\<dots>\<close>r skuld (>80%)".
\<close>

theorem scenario_posterior_90_56:
  "do_exact_bayes_calculation (1/100) (Punkt_bevis [(95/100, 1/1000)]) =
     Inr (Punkt_resultat [1/100, 950/1049]
       [\<lparr>row_nr = Bevis 1, row_pba = 95, row_pbna = 1/10, gammal_post = 1,
         ny_post = 95000/1049, forandring = 93951/1049,
         row_kommentar = Talar_starkt_for_skuld_80\<rparr>])
   \<and> 9056/100 \<le> (950/1049 :: real) * 100 \<and> (950/1049 :: real) * 100 < 9057/100
   \<and> bevis_kommentar (950/1049 * 100) = Talar_starkt_for_skuld_80"
  by (simp add: do_exact_bayes_calculation_def bayes_update_def py_div_def Let_def
      bevis_kommentar_def)

subsection \<open>Rounding to double\<close>














subsection \<open>The update step in double precision\<close>













subsection \<open>Dempster-Shafer in double precision\<close>












































end
